theory Spec2Isabelle
  imports Complex_Main "HOL-Library.Word"
begin

section \<open>The chat screen\<close>

text \<open>
  The component \<open>ChatScreen\<close>: its state (the message list, the input field, the flag
  \<open>isSending\<close>) and \<open>handleSend\<close>, the one function that changes the message list and talks
  to the server.
\<close>

subsection \<open>JavaScript strings\<close>

text \<open>
  A JavaScript string is a sequence of UTF-16 code units. Literals of the source that are
  plain ASCII are written with \<open>js\<close>; the two typographic characters of the error text
  are given by their code units.
\<close>

type_synonym jsstring = "16 word list"

definition js :: "string \<Rightarrow> jsstring" where
  "js s = map of_char s"

text \<open>
  \<open>String.prototype.trim\<close> removes WhiteSpace and LineTerminator code points from both
  ends (ECMAScript, all of them in the basic plane, so one code unit each).
\<close>

definition WhiteSpace :: "16 word \<Rightarrow> bool" where
  "WhiteSpace c \<longleftrightarrow>
     c = 0x9 \<or> c = 0xB \<or> c = 0xC \<or> c = 0x20 \<or> c = 0xA0 \<or> c = 0x1680 \<or>
     (0x2000 \<le> c \<and> c \<le> 0x200A) \<or> c = 0x202F \<or> c = 0x205F \<or> c = 0x3000 \<or> c = 0xFEFF"

definition LineTerminator :: "16 word \<Rightarrow> bool" where
  "LineTerminator c \<longleftrightarrow> c = 0xA \<or> c = 0xD \<or> c = 0x2028 \<or> c = 0x2029"

definition trim :: "jsstring \<Rightarrow> jsstring" where
  "trim s =
     (let blank = (\<lambda>c. WhiteSpace c \<or> LineTerminator c)
      in rev (dropWhile blank (rev (dropWhile blank s))))"

text \<open>
  \<open>Date.now()\<close> is an integral number of milliseconds, of at most 16 digits; inside a
  template literal it is printed in decimal, with a minus sign before a negative value.
\<close>

fun decimal :: "nat \<Rightarrow> jsstring" where
  "decimal n = (if n < 10 then [of_nat (48 + n)]
                else decimal (n div 10) @ [of_nat (48 + n mod 10)])"

declare decimal.simps [simp del]

definition number_to_string :: "int \<Rightarrow> jsstring" where
  "number_to_string i =
     (if i < 0 then js ''-'' @ decimal (nat (- i)) else decimal (nat i))"

subsection \<open>Messages and component state\<close>

datatype sender = user | assistant

record Message =
  msg_id :: jsstring
  msg_from :: sender
  msg_text :: jsstring

record state =
  messages :: "Message list"
  input :: jsstring
  isSending :: bool

definition WELCOME_TEXT :: jsstring where
  "WELCOME_TEXT = js (''Hi! I'' @ [CHR 0x27] @ ''m here to help you understand your Medicare and retirement options. What questions do you have today?'')"

definition initial_state :: state where
  "initial_state =
     \<lparr>messages = [\<lparr>msg_id = js ''welcome'', msg_from = assistant, msg_text = WELCOME_TEXT\<rparr>],
      input = [], isSending = False\<rparr>"

definition FALLBACK_TEXT :: jsstring where
  "FALLBACK_TEXT = js ''I had trouble reading the response from the retirement assistant. Please try asking your question again in a moment.''"

definition ERROR_TEXT :: jsstring where
  "ERROR_TEXT =
     js ''I'' @ [0x2019] @ js ''m sorry '' @ [0x2014] @ js '' I couldn'' @ [0x2019] @
     js ''t reach the retirement resources assistant service. Please check that the backend server is running and try again.''"

subsection \<open>The transport: request, response, failures\<close>

datatype json_value =
    JNull
  | JBool bool
  | JNumber real
  | JString jsstring
  | JArray "json_value list"
  | JObject "(jsstring \<times> json_value) list"

text \<open>
  The request is the pair of arguments of \<open>fetch\<close>; its body is the value handed to
  \<open>JSON.stringify\<close>.
\<close>

record request =
  req_url :: jsstring
  req_method :: jsstring
  req_headers :: "(jsstring \<times> jsstring) list"
  req_body :: json_value

text \<open>The body of a response as the source types it: \<open>{ reply?: string }\<close>.\<close>

record data =
  reply :: "jsstring option"

text \<open>
  The promise of \<open>response.json()\<close>: it stays pending for good, rejects, or resolves
  with the body.
\<close>

datatype json_result = json_pending | json_rejects | json_resolves data

record response =
  ok :: bool
  status :: nat
  json :: json_result

text \<open>
  The promise of \<open>fetch\<close>: it stays pending for good (the source sets no timeout and never
  aborts), rejects, or resolves with a response.
\<close>

datatype fetch_result = fetch_pending | fetch_rejects | fetch_resolves response

text \<open>What can be thrown inside the \<open>try\<close> block.\<close>

datatype error = NetworkError | HttpError nat | JsonError

text \<open>
  What one call of \<open>handleSend\<close> gets from outside: the clock when the user message is
  built, the clock when the answer (or the failure) is turned into a message, and the
  server behind \<open>fetch\<close>.
\<close>

record env =
  now_user :: int
  now_reply :: int
  fetch :: "request \<Rightarrow> fetch_result"

subsection \<open>handleSend\<close>

definition userMessage :: "int \<Rightarrow> jsstring \<Rightarrow> Message" where
  "userMessage now content =
     \<lparr>msg_id = js ''user-'' @ number_to_string now, msg_from = user, msg_text = content\<rparr>"

definition assistantMessage :: "int \<Rightarrow> jsstring \<Rightarrow> Message" where
  "assistantMessage now replyText =
     \<lparr>msg_id = js ''assistant-'' @ number_to_string now, msg_from = assistant,
      msg_text = replyText\<rparr>"

definition errorMessage :: "int \<Rightarrow> Message" where
  "errorMessage now =
     \<lparr>msg_id = js ''assistant-error-'' @ number_to_string now, msg_from = assistant,
      msg_text = ERROR_TEXT\<rparr>"

definition chat_request :: "jsstring \<Rightarrow> request" where
  "chat_request content =
     \<lparr>req_url = js ''http://localhost:8000/chat'',
      req_method = js ''POST'',
      req_headers = [(js ''Content-Type'', js ''application/json'')],
      req_body = JObject [(js ''message'', JString content)]\<rparr>"

text \<open>
  The \<open>try\<close> block from its first \<open>await\<close> on: it never gets past an \<open>await\<close> whose
  promise stays pending (\<open>None\<close>), or it throws, or it has built the assistant message that
  it appends. A response that is not ok throws before \<open>response.json()\<close> is called.
\<close>

fun try_block :: "fetch_result \<Rightarrow> int \<Rightarrow> (error + Message) option" where
  "try_block fetch_pending now = None"
| "try_block fetch_rejects now = Some (Inl NetworkError)"
| "try_block (fetch_resolves r) now =
     (if \<not> ok r then Some (Inl (HttpError (status r)))
      else case json r of
             json_pending \<Rightarrow> None
           | json_rejects \<Rightarrow> Some (Inl JsonError)
           | json_resolves d \<Rightarrow>
               Some (Inr (assistantMessage now
                            (case reply d of None \<Rightarrow> FALLBACK_TEXT | Some t \<Rightarrow> t))))"

text \<open>
  The awaited promises of one send settle: \<open>fetch\<close> rejects or resolves, and for an ok
  response \<open>response.json()\<close> rejects or resolves.
\<close>

fun settles :: "fetch_result \<Rightarrow> bool" where
  "settles fetch_pending = False"
| "settles fetch_rejects = True"
| "settles (fetch_resolves r) = (if ok r then json r \<noteq> json_pending else True)"

text \<open>
  The synchronous part of \<open>handleSend\<close>, up to the call of \<open>fetch\<close>: \<open>None\<close> is the early
  return, otherwise the updated state and the request that is issued.
\<close>

definition handleSend_begin :: "jsstring option \<Rightarrow> int \<Rightarrow> state \<Rightarrow> (state \<times> request) option" where
  "handleSend_begin text_arg now st =
     (let content = trim (case text_arg of None \<Rightarrow> input st | Some t \<Rightarrow> t)
      in if content = [] \<or> isSending st then None
         else Some (st\<lparr>isSending := True, input := [],
                       messages := messages st @ [userMessage now content]\<rparr>,
                    chat_request content))"

text \<open>
  The rest of \<open>handleSend\<close> after the call of \<open>fetch\<close>: \<open>try\<close>, \<open>catch\<close>, \<open>finally\<close>. The
  state updates are functions of the state at that moment, as the updaters of the source
  are. While an awaited promise stays pending nothing of this runs, \<open>finally\<close> included,
  and the state is left as it is. The second component is what \<open>console.error\<close> received.
\<close>

definition handleSend_resume :: "fetch_result \<Rightarrow> int \<Rightarrow> state \<Rightarrow> state \<times> error list" where
  "handleSend_resume fr now st =
     (case try_block fr now of
        None \<Rightarrow> (st, [])
      | Some (Inr assistant_message) \<Rightarrow>
          (st\<lparr>messages := messages st @ [assistant_message], isSending := False\<rparr>, [])
      | Some (Inl e) \<Rightarrow>
          (st\<lparr>messages := messages st @ [errorMessage now], isSending := False\<rparr>, [e]))"

text \<open>
  One call of \<open>handleSend\<close>. For a request that never settles the call never returns, and
  \<open>new_state\<close> is the state the screen then stays in.
\<close>

record effects =
  new_state :: state
  requests :: "request list"
  console :: "error list"

definition handleSend :: "jsstring option \<Rightarrow> env \<Rightarrow> state \<Rightarrow> effects" where
  "handleSend text_arg e st =
     (case handleSend_begin text_arg (now_user e) st of
        None \<Rightarrow> \<lparr>new_state = st, requests = [], console = []\<rparr>
      | Some (st1, req) \<Rightarrow>
          (let (st2, logged) = handleSend_resume (fetch e req) (now_reply e) st1
           in \<lparr>new_state = st2, requests = [req], console = logged\<rparr>))"

text \<open>A run of the screen: one call of \<open>handleSend\<close> after the other.\<close>

fun sends :: "(jsstring option \<times> env) list \<Rightarrow> state \<Rightarrow> state" where
  "sends [] st = st"
| "sends ((text_arg, e) # rest) st = sends rest (new_state (handleSend text_arg e st))"

text \<open>A server that answers every request with one fixed reply, and one that accepts
  every request and never answers.\<close>

definition example_env :: env where
  "example_env =
     \<lparr>now_user = 1700000000000, now_reply = 1700000000950,
      fetch = (\<lambda>req. fetch_resolves
                 \<lparr>ok = True, status = 200,
                  json = json_resolves \<lparr>reply = Some (js ''Part A is hospital insurance.'')\<rparr>\<rparr>)\<rparr>"

definition example_silent_env :: env where
  "example_silent_env =
     \<lparr>now_user = 1700000000000, now_reply = 1700000000950, fetch = (\<lambda>req. fetch_pending)\<rparr>"

section \<open>The routing and session core\<close>

text \<open>
  The server behind \<open>/chat\<close> (session manager, router, specialist responders) is not
  among the source files; the chat screen is its caller. Its operations are modelled from
  the specification, each definition saying so.
\<close>

subsection \<open>Data model\<close>

text \<open>Modelled from the spec: the fixed set of domains (section 3, RoutingDecision, and
  the glossary); the server's own declaration of them is not among the source files.\<close>

datatype domain = Medicare | Medicaid | LocalResources | Fallback

text \<open>Modelled from the spec: the errors of the server's core that the operations below
  can raise (section 7), in place of its missing error types.\<close>

datatype core_error = SessionNotFound | ProviderUnavailable

text \<open>Modelled from the spec: the missing Turn record (section 3): role, text, domain
  attribution (none for user turns), timestamp, and the sequence number within its
  session.\<close>

record Turn =
  turn_role :: sender
  turn_text :: string
  turn_domain :: "domain option"
  turn_timestamp :: nat
  turn_seq :: nat

text \<open>Modelled from the spec: the missing Session record (section 3): identifier, turns
  oldest first, last active domain. Its created and updated timestamps are left out: the spec names them and
  gives no operation's effect on them.\<close>

record Session =
  session_id :: string
  turns :: "Turn list"
  last_active_domain :: "domain option"

text \<open>Modelled from the spec: the keyed store owned by the missing Session Manager
  (section 9).\<close>

type_synonym store = "string \<rightharpoonup> Session"

subsection \<open>Session Manager\<close>

text \<open>Modelled from the spec: \<open>get_or_create\<close> of the missing Session Manager (section 4.1)
  returns the existing session or creates an empty one.\<close>

definition get_or_create :: "store \<Rightarrow> string \<Rightarrow> store \<times> Session" where
  "get_or_create st sid =
     (case st sid of
        Some s \<Rightarrow> (st, s)
      | None \<Rightarrow>
          (let s = \<lparr>session_id = sid, turns = [], last_active_domain = None\<rparr>
           in (st(sid \<mapsto> s), s)))"

text \<open>Modelled from the spec: the next sequence number that the missing Session
  Manager assigns (section 3): 1 for the first turn, one more than the last stored turn's
  number afterwards.\<close>

definition next_seq :: "Session \<Rightarrow> nat" where
  "next_seq s = (case turns s of [] \<Rightarrow> 1 | _ # _ \<Rightarrow> Suc (turn_seq (last (turns s))))"

text \<open>Modelled from the spec: \<open>append_turn\<close> of the missing Session Manager (section 4.1)
  assigns the next sequence number,
  stores the turn, updates the last active domain when the turn carries one, and returns the
  stored turn; it fails with \<open>SessionNotFound\<close> on an unknown id. One call is one step on the
  store: calls on the same session are serialised (section 5).\<close>

definition append_turn :: "store \<Rightarrow> string \<Rightarrow> Turn \<Rightarrow> core_error + store \<times> Turn" where
  "append_turn st sid t =
     (case st sid of
        None \<Rightarrow> Inl SessionNotFound
      | Some s \<Rightarrow>
          (let stored = t\<lparr>turn_seq := next_seq s\<rparr>;
               s' = s\<lparr>turns := turns s @ [stored],
                      last_active_domain :=
                        (case turn_domain t of None \<Rightarrow> last_active_domain s | Some d \<Rightarrow> Some d)\<rparr>
           in Inr (st(sid \<mapsto> s'), stored)))"

text \<open>Modelled from the spec: \<open>history\<close> of the missing Session Manager (section 4.1) gives
  the most recent \<open>limit\<close> turns (all of them without a limit), oldest first.\<close>

definition history :: "store \<Rightarrow> string \<Rightarrow> nat option \<Rightarrow> core_error + Turn list" where
  "history st sid limit =
     (case st sid of
        None \<Rightarrow> Inl SessionNotFound
      | Some s \<Rightarrow>
          Inr (case limit of
                 None \<Rightarrow> turns s
               | Some k \<Rightarrow> drop (length (turns s) - k) (turns s)))"

text \<open>Modelled from the spec: a caller of the missing Session Manager appending several
  turns to one session, one call after the other, collecting the stored turns; the first
  failure ends the run.\<close>

fun append_turns :: "store \<Rightarrow> string \<Rightarrow> Turn list \<Rightarrow> core_error + store \<times> Turn list" where
  "append_turns st sid [] = Inr (st, [])"
| "append_turns st sid (t # ts) =
     (case append_turn st sid t of
        Inl e \<Rightarrow> Inl e
      | Inr (st1, stored) \<Rightarrow>
          (case append_turns st1 sid ts of
             Inl e \<Rightarrow> Inl e
           | Inr (st2, rest) \<Rightarrow> Inr (st2, stored # rest)))"

text \<open>Modelled from the spec: the calls arriving at the missing Session Manager from any
  number of callers and for any sessions. Since each call is one step on the store
  (section 5), what concurrent callers do is one such list, an interleaving of theirs. A
  failed call leaves the store as it was (section 7).\<close>

datatype call = GetOrCreate string | AppendTurn string Turn

fun run_call :: "store \<Rightarrow> call \<Rightarrow> store" where
  "run_call st (GetOrCreate sid) = fst (get_or_create st sid)"
| "run_call st (AppendTurn sid t) =
     (case append_turn st sid t of Inl e \<Rightarrow> st | Inr (st', stored) \<Rightarrow> st')"

definition run_calls :: "store \<Rightarrow> call list \<Rightarrow> store" where
  "run_calls st cs = foldl run_call st cs"

text \<open>The turns \<open>ts\<close> numbered \<open>k\<close>, \<open>k + 1\<close>, ... in their order.\<close>

fun number_from :: "nat \<Rightarrow> Turn list \<Rightarrow> Turn list" where
  "number_from k [] = []"
| "number_from k (t # ts) = t\<lparr>turn_seq := k\<rparr> # number_from (Suc k) ts"

text \<open>The sequence numbers of a session are 1, 2, ..., up to the number of its turns.\<close>

definition seq_run :: "Session \<Rightarrow> bool" where
  "seq_run s \<longleftrightarrow> map turn_seq (turns s) = [1 ..< Suc (length (turns s))]"

subsection \<open>Router\<close>

text \<open>Modelled from the spec: the missing RoutingDecision record (section 3): the chosen
  domain and the confidence score. The rationale is free text for observability and is left out.\<close>

record RoutingDecision =
  decision_domain :: domain
  confidence :: real

text \<open>Modelled from the spec: the tie-break precedence of the missing Router (section 4.2),
  Medicare before Medicaid before Local-Resources before Fallback, as a position.\<close>

fun rank :: "domain \<Rightarrow> nat" where
  "rank Medicare = 0"
| "rank Medicaid = 1"
| "rank LocalResources = 2"
| "rank Fallback = 3"

text \<open>Modelled from the spec: how the missing Router finds the strongest domain, the
  candidates visited in precedence order (section 4.2); a later candidate replaces the best so far only when it is strictly
  stronger, so that precedence decides exact ties.\<close>

fun strongest :: "(domain \<Rightarrow> real) \<Rightarrow> domain \<Rightarrow> domain list \<Rightarrow> domain" where
  "strongest strength best [] = best"
| "strongest strength best (d # ds) =
     strongest strength (if strength best < strength d then d else best) ds"

text \<open>Modelled from the spec: \<open>route\<close> of the missing Router (section 4.2). How the text and the session (with its
  continuity bias) become a signal strength per domain is not specified; that classifier is
  the parameter \<open>signal\<close>. The strongest specialist domain is chosen, by precedence on exact
  ties; when it does not reach the threshold the decision is Fallback. The confidence is
  the best candidate's strength in both cases.\<close>

definition route ::
  "real \<Rightarrow> (Session \<Rightarrow> string \<Rightarrow> domain \<Rightarrow> real) \<Rightarrow> Session \<Rightarrow> string \<Rightarrow> RoutingDecision" where
  "route domain_confidence_threshold signal session incoming_text =
     (let strength = signal session incoming_text;
          best = strongest strength Medicare [Medicaid, LocalResources]
      in if domain_confidence_threshold \<le> strength best
         then \<lparr>decision_domain = best, confidence = strength best\<rparr>
         else \<lparr>decision_domain = Fallback, confidence = strength best\<rparr>)"

subsection \<open>Specialist Responder\<close>

text \<open>Modelled from the spec: what a Knowledge Provider (none is among the source files)
  returns when it does not raise (section 6): a result or the well-defined "no result" outcome.\<close>

datatype 'r lookup_result = Found 'r | NoMatch

text \<open>Modelled from the spec: the missing SpecialistResponse record (section 3).\<close>

record SpecialistResponse =
  reply_text :: string
  providers_consulted :: "string list"
  needs_disclaimer :: bool

text \<open>Modelled from the spec: what one of the missing Specialist Responders is made of
  (sections 4.3 and 9). The
  spec leaves these to each specialist, so they are parameters: which lookups a query
  needs (by provider name), the registered providers, the reasoning step without and with
  provider results, and whether the reply makes a factual claim.\<close>

record ('q, 'r) Specialist =
  lookups_needed :: "Session \<Rightarrow> string \<Rightarrow> (string \<times> 'q) list"
  provider :: "string \<Rightarrow> 'q \<Rightarrow> core_error + 'r lookup_result"
  general_answer :: "Session \<Rightarrow> string \<Rightarrow> string"
  informed_answer :: "Session \<Rightarrow> string \<Rightarrow> (string \<times> 'r lookup_result) list \<Rightarrow> string"
  factual_claim :: "Session \<Rightarrow> string \<Rightarrow> (string \<times> 'r lookup_result) list \<Rightarrow> bool"

text \<open>Modelled from the spec: the missing responder issuing its KnowledgeQuery calls one
  after the other (section 4.3, step 2); a provider that raises ends the consultation with its error.\<close>

fun consult ::
  "(string \<Rightarrow> 'q \<Rightarrow> core_error + 'r lookup_result) \<Rightarrow> (string \<times> 'q) list \<Rightarrow>
   core_error + (string \<times> 'r lookup_result) list" where
  "consult providers [] = Inr []"
| "consult providers ((name, q) # rest) =
     (case providers name q of
        Inl e \<Rightarrow> Inl e
      | Inr found \<Rightarrow>
          (case consult providers rest of
             Inl e \<Rightarrow> Inl e
           | Inr results \<Rightarrow> Inr ((name, found) # results)))"

text \<open>Modelled from the spec: \<open>respond\<close> of the missing Specialist Responder (section 4.3).
  On a provider error the responder
  degrades to the general, provider-free answer and sets the disclaimer flag; otherwise the
  reply incorporates the results.\<close>

definition respond :: "('q, 'r) Specialist \<Rightarrow> Session \<Rightarrow> string \<Rightarrow> SpecialistResponse" where
  "respond sp session incoming_text =
     (case consult (provider sp) (lookups_needed sp session incoming_text) of
        Inl e \<Rightarrow>
          \<lparr>reply_text = general_answer sp session incoming_text,
           providers_consulted = [], needs_disclaimer = True\<rparr>
      | Inr results \<Rightarrow>
          \<lparr>reply_text = informed_answer sp session incoming_text results,
           providers_consulted = map fst results,
           needs_disclaimer = factual_claim sp session incoming_text results\<rparr>)"

subsection \<open>Examples\<close>

definition example_turn :: "sender \<Rightarrow> string \<Rightarrow> domain option \<Rightarrow> nat \<Rightarrow> Turn" where
  "example_turn r txt d ts =
     \<lparr>turn_role = r, turn_text = txt, turn_domain = d, turn_timestamp = ts, turn_seq = 0\<rparr>"

text \<open>Two callers on session \<open>s1\<close>, interleaved with a caller on \<open>s2\<close> and a call on the
  unknown session \<open>s3\<close>.\<close>

definition example_calls :: "call list" where
  "example_calls =
     [GetOrCreate ''s1'',
      AppendTurn ''s1'' (example_turn user ''What is Medicare Part A?'' None 10),
      GetOrCreate ''s2'',
      AppendTurn ''s2'' (example_turn user ''Find senior centers near 33101'' None 11),
      AppendTurn ''s1'' (example_turn assistant ''Part A is hospital insurance.'' (Some Medicare) 12),
      AppendTurn ''s3'' (example_turn user ''What about Part B?'' None 13),
      GetOrCreate ''s1'',
      AppendTurn ''s1'' (example_turn user ''What about Part B?'' None 14)]"

definition example_signal :: "Session \<Rightarrow> string \<Rightarrow> domain \<Rightarrow> real" where
  "example_signal session incoming_text d =
     (case d of Medicare \<Rightarrow> 7 / 10 | Medicaid \<Rightarrow> 7 / 10 | LocalResources \<Rightarrow> 1 / 5 | Fallback \<Rightarrow> 0)"

definition example_specialist :: "(string, string) Specialist" where
  "example_specialist =
     \<lparr>lookups_needed = (\<lambda>session txt. [(''medicaid_info'', txt), (''eligibility'', txt)]),
      provider = (\<lambda>name q. if name = ''eligibility'' then Inl ProviderUnavailable else Inr NoMatch),
      general_answer = (\<lambda>session txt. ''Medicaid is a joint federal and state program.''),
      informed_answer = (\<lambda>session txt results. ''No results were found.''),
      factual_claim = (\<lambda>session txt results. False)\<rparr>"

section \<open>Properties of the chat screen\<close>






lemma handleSend_begin_messages:
  "handleSend_begin text_arg now st = Some (st1, req) \<Longrightarrow>
   \<exists>m. messages st1 = messages st @ [m]"
  by (auto simp: handleSend_begin_def Let_def split: if_splits)

lemma try_block_settles: "try_block fr now = None \<longleftrightarrow> \<not> settles fr"
  by (cases fr) (auto split: json_result.splits)

lemma handleSend_resume_pending: "\<not> settles fr \<Longrightarrow> handleSend_resume fr now st = (st, [])"
  using try_block_settles [of fr now] by (simp add: handleSend_resume_def)

lemma handleSend_resume_settled:
  "settles fr \<Longrightarrow> \<exists>m. messages (fst (handleSend_resume fr now st)) = messages st @ [m]"
proof -
  assume "settles fr"
  then obtain c where "try_block fr now = Some c"
    using try_block_settles [of fr now] by auto
  then show ?thesis
    by (cases c) (simp_all add: handleSend_resume_def)
qed

lemma handleSend_resume_messages:
  "\<exists>ms. messages (fst (handleSend_resume fr now st)) = messages st @ ms"
proof (cases "settles fr")
  case True
  then show ?thesis using handleSend_resume_settled by blast
next
  case False
  then show ?thesis by (simp add: handleSend_resume_pending)
qed

lemma handleSend_messages:
  "\<exists>ms. messages (new_state (handleSend text_arg e st)) = messages st @ ms"
proof (cases "handleSend_begin text_arg (now_user e) st")
  case None
  then show ?thesis by (simp add: handleSend_def)
next
  case (Some p)
  obtain st1 req where p: "p = (st1, req)" by (cases p)
  from Some p obtain m where m: "messages st1 = messages st @ [m]"
    using handleSend_begin_messages by blast
  obtain ms where ms: "messages (fst (handleSend_resume (fetch e req) (now_reply e) st1)) = messages st1 @ ms"
    using handleSend_resume_messages by blast
  show ?thesis
    using Some p m ms by (auto simp: handleSend_def split: prod.splits)
qed

lemma sends_messages: "\<exists>ms. messages (sends calls st) = messages st @ ms"
proof (induction calls arbitrary: st)
  case Nil
  show ?case by simp
next
  case (Cons c calls)
  obtain text_arg e where c: "c = (text_arg, e)" by (cases c)
  obtain ms1 where 1: "messages (new_state (handleSend text_arg e st)) = messages st @ ms1"
    using handleSend_messages by blast
  obtain ms2 where 2: "messages (sends calls (new_state (handleSend text_arg e st))) = messages (new_state (handleSend text_arg e st)) @ ms2"
    using Cons.IH by blast
  show ?case using c 1 2 by simp
qed

lemma handleSend_begin_accepted:
  assumes "trim (case text_arg of None \<Rightarrow> input st | Some t \<Rightarrow> t) = content"
    and "content \<noteq> []" and "\<not> isSending st"
  shows "handleSend_begin text_arg now st =
           Some (\<lparr>messages = messages st @ [userMessage now content], input = [], isSending = True\<rparr>,
                 chat_request content)"
  using assms by (simp add: handleSend_begin_def Let_def)

lemma trim_example: "trim (js '' What is Medicare Part A?  '') = js ''What is Medicare Part A?''"
  by (simp add: trim_def js_def WhiteSpace_def LineTerminator_def)



subsection \<open>The transport boundary as the screen uses it\<close>

text \<open>
  Claim C1. A send that is accepted issues exactly one request: a POST to
  \<open>http://localhost:8000/chat\<close> with content type JSON, whose body is the object with the
  single member \<open>message\<close>, the trimmed text (no \<open>session_id\<close> is sent). When the server
  answers ok with a body carrying \<open>reply\<close>, the message appended last is the assistant
  message with that reply as its text.
\<close>

theorem handleSend_transport:
  assumes "trim (case text_arg of None \<Rightarrow> input st | Some t \<Rightarrow> t) = content"
    and "content \<noteq> []" and "\<not> isSending st"
  shows "requests (handleSend text_arg e st) =
           [\<lparr>req_url = js ''http://localhost:8000/chat'', req_method = js ''POST'',
             req_headers = [(js ''Content-Type'', js ''application/json'')],
             req_body = JObject [(js ''message'', JString content)]\<rparr>] \<and>
         (\<forall>r t. fetch e \<lparr>req_url = js ''http://localhost:8000/chat'', req_method = js ''POST'',
                          req_headers = [(js ''Content-Type'', js ''application/json'')],
                          req_body = JObject [(js ''message'', JString content)]\<rparr> = fetch_resolves r \<and>
                ok r \<and> json r = json_resolves \<lparr>reply = Some t\<rparr> \<longrightarrow>
                last (messages (new_state (handleSend text_arg e st))) =
                  \<lparr>msg_id = js ''assistant-'' @ number_to_string (now_reply e),
                   msg_from = assistant, msg_text = t\<rparr>)"
proof -
  note b = handleSend_begin_accepted [OF assms, of "now_user e"]
  have "requests (handleSend text_arg e st) = [chat_request content]"
    using b by (simp add: handleSend_def split: prod.splits)
  moreover have "last (messages (new_state (handleSend text_arg e st))) = assistantMessage (now_reply e) t"
    if "fetch e (chat_request content) = fetch_resolves r" "ok r" "json r = json_resolves \<lparr>reply = Some t\<rparr>"
    for r t
    using b that by (simp add: handleSend_def handleSend_resume_def)
  ultimately show ?thesis
    by (simp add: chat_request_def assistantMessage_def)
qed

theorem handleSend_transport_witness:
  "trim (case Some (js '' What is Medicare Part A?  '') of None \<Rightarrow> input initial_state | Some t \<Rightarrow> t)
     = js ''What is Medicare Part A?'' \<and>
   js ''What is Medicare Part A?'' \<noteq> [] \<and> \<not> isSending initial_state \<and>
   requests (handleSend (Some (js '' What is Medicare Part A?  '')) example_env initial_state) =
     [\<lparr>req_url = js ''http://localhost:8000/chat'', req_method = js ''POST'',
       req_headers = [(js ''Content-Type'', js ''application/json'')],
       req_body = JObject [(js ''message'', JString (js ''What is Medicare Part A?''))]\<rparr>] \<and>
   last (messages (new_state (handleSend (Some (js '' What is Medicare Part A?  '')) example_env initial_state))) =
     \<lparr>msg_id = js ''assistant-1700000000950'', msg_from = assistant,
      msg_text = js ''Part A is hospital insurance.''\<rparr>"
proof -
  have h1: "trim (case Some (js '' What is Medicare Part A?  '') of None \<Rightarrow> input initial_state | Some t \<Rightarrow> t)
     = js ''What is Medicare Part A?''"
    by (simp add: trim_example)
  have h2: "js ''What is Medicare Part A?'' \<noteq> []"
    by (simp add: js_def)
  have h3: "\<not> isSending initial_state"
    by (simp add: initial_state_def)
  have n: "number_to_string 1700000000950 = js ''1700000000950''"
    by (simp add: number_to_string_def decimal.simps js_def)
  note t = handleSend_transport [OF h1 h2 h3, of example_env]
  have "fetch example_env \<lparr>req_url = js ''http://localhost:8000/chat'', req_method = js ''POST'',
                          req_headers = [(js ''Content-Type'', js ''application/json'')],
                          req_body = JObject [(js ''message'', JString (js ''What is Medicare Part A?''))]\<rparr>
         = fetch_resolves \<lparr>ok = True, status = 200,
                json = json_resolves \<lparr>reply = Some (js ''Part A is hospital insurance.'')\<rparr>\<rparr>"
    by (simp add: example_env_def)
  with t have "last (messages (new_state (handleSend (Some (js '' What is Medicare Part A?  '')) example_env initial_state))) =
     \<lparr>msg_id = js ''assistant-'' @ number_to_string (now_reply example_env), msg_from = assistant,
      msg_text = js ''Part A is hospital insurance.''\<rparr>"
    by simp
  then have "last (messages (new_state (handleSend (Some (js '' What is Medicare Part A?  '')) example_env initial_state))) =
     \<lparr>msg_id = js ''assistant-1700000000950'', msg_from = assistant,
      msg_text = js ''Part A is hospital insurance.''\<rparr>"
    by (simp add: example_env_def n js_def)
  with t h1 h2 h3 show ?thesis by blast
qed

subsection \<open>The message list only grows\<close>

text \<open>
  Claim C2. Whatever calls of \<open>handleSend\<close> follow, the messages already in the list stay
  where they are, unchanged: the new list is the old one with messages added at the end.
  The same holds for the second half of a send on its own, whatever the state has become
  by then: once the request has settled it adds one message at the end and touches no
  other, and while the request stays pending it changes nothing.
\<close>

theorem messages_append_only:
  "(\<exists>ms. messages (sends calls st) = messages st @ ms) \<and>
   take (length (messages st)) (messages (sends calls st)) = messages st \<and>
   (\<exists>ms. messages (new_state (handleSend text_arg e st)) = messages st @ ms) \<and>
   (settles fr \<longrightarrow> (\<exists>m. messages (fst (handleSend_resume fr now st)) = messages st @ [m])) \<and>
   (\<not> settles fr \<longrightarrow> handleSend_resume fr now st = (st, []))"
proof -
  obtain ms where "messages (sends calls st) = messages st @ ms"
    using sends_messages by blast
  then show ?thesis
    using handleSend_resume_settled handleSend_resume_pending handleSend_messages by auto
qed

theorem messages_append_only_witness:
  "settles fetch_rejects \<and>
   (\<exists>m. messages (fst (handleSend_resume fetch_rejects 1700000000950 initial_state)) =
          messages initial_state @ [m]) \<and>
   \<not> settles fetch_pending \<and>
   handleSend_resume fetch_pending 1700000000950 initial_state = (initial_state, [])"
proof -
  have h1: "settles fetch_rejects" and h2: "\<not> settles fetch_pending"
    by simp_all
  from h1 messages_append_only [of "[]" initial_state None example_env fetch_rejects 1700000000950]
  have a: "\<exists>m. messages (fst (handleSend_resume fetch_rejects 1700000000950 initial_state)) =
          messages initial_state @ [m]"
    by blast
  from h2 messages_append_only [of "[]" initial_state None example_env fetch_pending 1700000000950]
  have b: "handleSend_resume fetch_pending 1700000000950 initial_state = (initial_state, [])"
    by blast
  from h1 h2 a b show ?thesis by blast
qed

subsection \<open>Failures of the transport\<close>




subsection \<open>Sends that are refused, sends that are accepted\<close>

text \<open>
  Claim C9. A call of \<open>handleSend\<close> whose trimmed content is empty, or that is made while
  \<open>isSending\<close> is true, leaves the whole state as it was (messages, input, \<open>isSending\<close>),
  issues no request and logs nothing.
\<close>

theorem handleSend_rejected:
  assumes "trim (case text_arg of None \<Rightarrow> input st | Some t \<Rightarrow> t) = [] \<or> isSending st"
  shows "handleSend text_arg e st = \<lparr>new_state = st, requests = [], console = []\<rparr>"
  using assms by (auto simp: handleSend_def handleSend_begin_def Let_def)

theorem handleSend_rejected_witness:
  "(trim (case None of None \<Rightarrow> input (initial_state\<lparr>input := js ''   ''\<rparr>) | Some t \<Rightarrow> t) = [] \<or>
      isSending (initial_state\<lparr>input := js ''   ''\<rparr>)) \<and>
   handleSend None example_env (initial_state\<lparr>input := js ''   ''\<rparr>) =
     \<lparr>new_state = initial_state\<lparr>input := js ''   ''\<rparr>, requests = [], console = []\<rparr> \<and>
   (trim (case Some (js ''Find local senior resources'') of None \<Rightarrow> input (initial_state\<lparr>isSending := True\<rparr>) | Some t \<Rightarrow> t) = [] \<or>
      isSending (initial_state\<lparr>isSending := True\<rparr>)) \<and>
   handleSend (Some (js ''Find local senior resources'')) example_env (initial_state\<lparr>isSending := True\<rparr>) =
     \<lparr>new_state = initial_state\<lparr>isSending := True\<rparr>, requests = [], console = []\<rparr>"
proof -
  have h1: "trim (case None of None \<Rightarrow> input (initial_state\<lparr>input := js ''   ''\<rparr>) | Some t \<Rightarrow> t) = [] \<or>
      isSending (initial_state\<lparr>input := js ''   ''\<rparr>)"
    by (simp add: trim_def js_def WhiteSpace_def LineTerminator_def)
  have h2: "trim (case Some (js ''Find local senior resources'') of None \<Rightarrow> input (initial_state\<lparr>isSending := True\<rparr>) | Some t \<Rightarrow> t) = [] \<or>
      isSending (initial_state\<lparr>isSending := True\<rparr>)"
    by simp
  show ?thesis
    using h1 h2 handleSend_rejected [OF h1, of example_env] handleSend_rejected [OF h2, of example_env]
    by simp
qed

text \<open>
  Claim C10. Not every accepted send ends with \<open>isSending\<close> false: the source awaits
  \<open>fetch\<close> without timeout or abort, and while the request (or the reading of an ok
  response's body) stays pending, \<open>finally\<close> does not run; the screen stays with the user
  message appended, the input cleared, \<open>isSending\<close> true and nothing logged. What holds:
  an accepted send whose request settles (rejected, answered with any status, body
  unreadable or read) ends in a state with \<open>isSending\<close> false and an empty input, whose
  messages are the old ones, then the user message with the trimmed text, then one
  assistant message. The assistant text is the reply of the server, the fixed fallback
  sentence when the body has no \<open>reply\<close>, and the fixed error text in every case where the
  \<open>try\<close> block throws; what is thrown there is caught and logged, none of it leaves
  \<open>handleSend\<close>.
\<close>

theorem handleSend_accepted:
  assumes "trim (case text_arg of None \<Rightarrow> input st | Some t \<Rightarrow> t) = content"
    and "content \<noteq> []" and "\<not> isSending st"
  shows "(settles (fetch e (chat_request content)) \<longrightarrow>
          (\<exists>a. new_state (handleSend text_arg e st) =
                 \<lparr>messages = messages st @ [userMessage (now_user e) content, a],
                  input = [], isSending = False\<rparr> \<and>
               msg_from (userMessage (now_user e) content) = user \<and>
               msg_text (userMessage (now_user e) content) = content \<and>
               msg_from a = assistant \<and>
               (\<forall>r t. fetch e (chat_request content) = fetch_resolves r \<and> ok r \<and>
                      json r = json_resolves \<lparr>reply = Some t\<rparr> \<longrightarrow> msg_text a = t) \<and>
               (\<forall>r. fetch e (chat_request content) = fetch_resolves r \<and> ok r \<and>
                    json r = json_resolves \<lparr>reply = None\<rparr> \<longrightarrow> msg_text a = FALLBACK_TEXT) \<and>
               (fetch e (chat_request content) = fetch_rejects \<or>
                (\<exists>r. fetch e (chat_request content) = fetch_resolves r \<and>
                     (\<not> ok r \<or> json r = json_rejects)) \<longrightarrow> msg_text a = ERROR_TEXT) \<and>
               console (handleSend text_arg e st) =
                 (case try_block (fetch e (chat_request content)) (now_reply e) of
                    Some (Inl thrown) \<Rightarrow> [thrown] | _ \<Rightarrow> []))) \<and>
         (\<not> settles (fetch e (chat_request content)) \<longrightarrow>
            handleSend text_arg e st =
              \<lparr>new_state =
                 \<lparr>messages = messages st @ [userMessage (now_user e) content],
                  input = [], isSending = True\<rparr>,
               requests = [chat_request content], console = []\<rparr>)"
proof -
  note b = handleSend_begin_accepted [OF assms, of "now_user e"]
  show ?thesis
  proof (cases "fetch e (chat_request content)")
    case fetch_pending
    with b show ?thesis
      by (simp add: handleSend_def handleSend_resume_def)
  next
    case fetch_rejects
    with b show ?thesis
      by (simp add: handleSend_def handleSend_resume_def userMessage_def errorMessage_def)
  next
    case (fetch_resolves r)
    show ?thesis
    proof (cases "ok r")
      case False
      with b fetch_resolves show ?thesis
        by (simp add: handleSend_def handleSend_resume_def userMessage_def errorMessage_def)
    next
      case True
      show ?thesis
      proof (cases "json r")
        case json_pending
        with b fetch_resolves True show ?thesis
          by (simp add: handleSend_def handleSend_resume_def)
      next
        case json_rejects
        with b fetch_resolves True show ?thesis
          by (simp add: handleSend_def handleSend_resume_def userMessage_def errorMessage_def)
      next
        case (json_resolves d)
        obtain x where d: "d = \<lparr>reply = x\<rparr>" by (cases d)
        with b fetch_resolves True json_resolves show ?thesis
          by (cases x)
            (simp_all add: handleSend_def handleSend_resume_def userMessage_def assistantMessage_def)
      qed
    qed
  qed
qed

theorem handleSend_accepted_witness:
  "trim (case Some (js '' What is Medicare Part A?  '') of None \<Rightarrow> input initial_state | Some t \<Rightarrow> t) = js ''What is Medicare Part A?'' \<and>
   js ''What is Medicare Part A?'' \<noteq> [] \<and> \<not> isSending initial_state \<and>
   settles (fetch example_env (chat_request (js ''What is Medicare Part A?''))) \<and>
   (\<exists>a. new_state (handleSend (Some (js '' What is Medicare Part A?  '')) example_env initial_state) =
          \<lparr>messages = messages initial_state @ [userMessage 1700000000000 (js ''What is Medicare Part A?''), a],
           input = [], isSending = False\<rparr> \<and>
        msg_from a = assistant \<and>
        msg_text a = js ''Part A is hospital insurance.'') \<and>
   \<not> settles (fetch example_silent_env (chat_request (js ''What is Medicare Part A?''))) \<and>
   handleSend (Some (js '' What is Medicare Part A?  '')) example_silent_env initial_state =
     \<lparr>new_state =
        \<lparr>messages = messages initial_state @ [userMessage 1700000000000 (js ''What is Medicare Part A?'')],
         input = [], isSending = True\<rparr>,
      requests = [chat_request (js ''What is Medicare Part A?'')], console = []\<rparr>"
proof -
  have h1: "trim (case Some (js '' What is Medicare Part A?  '') of None \<Rightarrow> input initial_state | Some t \<Rightarrow> t) = js ''What is Medicare Part A?''"
    by (simp add: trim_example)
  have h2: "js ''What is Medicare Part A?'' \<noteq> []"
    by (simp add: js_def)
  have h3: "\<not> isSending initial_state"
    by (simp add: initial_state_def)
  have h4: "settles (fetch example_env (chat_request (js ''What is Medicare Part A?'')))"
    by (simp add: example_env_def)
  have h5: "\<not> settles (fetch example_silent_env (chat_request (js ''What is Medicare Part A?'')))"
    by (simp add: example_silent_env_def)
  have f: "fetch example_env (chat_request (js ''What is Medicare Part A?'')) =
             fetch_resolves \<lparr>ok = True, status = 200,
               json = json_resolves \<lparr>reply = Some (js ''Part A is hospital insurance.'')\<rparr>\<rparr>"
    by (simp add: example_env_def)
  from handleSend_accepted [OF h1 h2 h3, of example_env] h4 f
  obtain a where
    "new_state (handleSend (Some (js '' What is Medicare Part A?  '')) example_env initial_state) =
          \<lparr>messages = messages initial_state @ [userMessage (now_user example_env) (js ''What is Medicare Part A?''), a],
           input = [], isSending = False\<rparr>"
    "msg_from a = assistant"
    "msg_text a = js ''Part A is hospital insurance.''"
    by auto
  then have A: "\<exists>a. new_state (handleSend (Some (js '' What is Medicare Part A?  '')) example_env initial_state) =
          \<lparr>messages = messages initial_state @ [userMessage 1700000000000 (js ''What is Medicare Part A?''), a],
           input = [], isSending = False\<rparr> \<and>
        msg_from a = assistant \<and>
        msg_text a = js ''Part A is hospital insurance.''"
    by (auto simp: example_env_def)
  from handleSend_accepted [OF h1 h2 h3, of example_silent_env] h5
  have "handleSend (Some (js '' What is Medicare Part A?  '')) example_silent_env initial_state =
     \<lparr>new_state =
        \<lparr>messages = messages initial_state @ [userMessage (now_user example_silent_env) (js ''What is Medicare Part A?'')],
         input = [], isSending = True\<rparr>,
      requests = [chat_request (js ''What is Medicare Part A?'')], console = []\<rparr>"
    by blast
  then have B: "handleSend (Some (js '' What is Medicare Part A?  '')) example_silent_env initial_state =
     \<lparr>new_state =
        \<lparr>messages = messages initial_state @ [userMessage 1700000000000 (js ''What is Medicare Part A?'')],
         input = [], isSending = True\<rparr>,
      requests = [chat_request (js ''What is Medicare Part A?'')], console = []\<rparr>"
    by (simp add: example_silent_env_def)
  from h1 h2 h3 h4 h5 A B show ?thesis by blast
qed

theorem held_request_counterexample:
  "trim (case Some (js '' What is Medicare Part A?  '') of None \<Rightarrow> input initial_state | Some t \<Rightarrow> t) = js ''What is Medicare Part A?'' \<and>
   js ''What is Medicare Part A?'' \<noteq> [] \<and> \<not> isSending initial_state \<and>
   new_state (handleSend (Some (js '' What is Medicare Part A?  '')) example_silent_env initial_state) =
     \<lparr>messages = messages initial_state @ [userMessage 1700000000000 (js ''What is Medicare Part A?'')],
      input = [], isSending = True\<rparr>"
proof -
  have h1: "trim (case Some (js '' What is Medicare Part A?  '') of None \<Rightarrow> input initial_state | Some t \<Rightarrow> t) = js ''What is Medicare Part A?''"
    by (simp add: trim_example)
  have h2: "js ''What is Medicare Part A?'' \<noteq> []"
    by (simp add: js_def)
  have h3: "\<not> isSending initial_state"
    by (simp add: initial_state_def)
  from handleSend_begin_accepted [OF h1 h2 h3, of 1700000000000]
  have "new_state (handleSend (Some (js '' What is Medicare Part A?  '')) example_silent_env initial_state) =
     \<lparr>messages = messages initial_state @ [userMessage 1700000000000 (js ''What is Medicare Part A?'')],
      input = [], isSending = True\<rparr>"
    by (simp add: handleSend_def handleSend_resume_def example_silent_env_def)
  with h1 h2 h3 show ?thesis by blast
qed

section \<open>Properties of the routing and session core\<close>

subsection \<open>Sequence numbers\<close>

lemma next_seq_run: "seq_run s \<Longrightarrow> next_seq s = Suc (length (turns s))"
proof (cases "turns s" rule: rev_cases)
  case Nil
  then show ?thesis by (simp add: next_seq_def)
next
  case (snoc ts t)
  assume "seq_run s"
  with snoc have "map turn_seq ts @ [turn_seq t] = [1 ..< Suc (length ts)] @ [Suc (length ts)]"
    by (simp add: seq_run_def)
  then have "turn_seq t = Suc (length ts)" by simp
  with snoc show ?thesis by (cases ts) (simp_all add: next_seq_def)
qed

lemma seq_run_snoc:
  assumes "seq_run s" and "turns s' = turns s @ [t\<lparr>turn_seq := Suc (length (turns s))\<rparr>]"
  shows "seq_run s'"
proof -
  have "[1 ..< Suc (Suc (length (turns s)))] = [1 ..< Suc (length (turns s))] @ [Suc (length (turns s))]"
    by (rule upt_Suc_append) simp
  with assms show ?thesis
    by (simp add: seq_run_def del: upt_Suc)
qed

lemma append_turn_seq_run:
  assumes "st sid = Some s" and "seq_run s"
  shows "\<exists>s'. append_turn st sid t = Inr (st(sid \<mapsto> s'), t\<lparr>turn_seq := Suc (length (turns s))\<rparr>) \<and>
              turns s' = turns s @ [t\<lparr>turn_seq := Suc (length (turns s))\<rparr>] \<and> seq_run s'"
proof -
  let ?s' = "s\<lparr>turns := turns s @ [t\<lparr>turn_seq := Suc (length (turns s))\<rparr>],
               last_active_domain :=
                 (case turn_domain t of None \<Rightarrow> last_active_domain s | Some d \<Rightarrow> Some d)\<rparr>"
  have "append_turn st sid t = Inr (st(sid \<mapsto> ?s'), t\<lparr>turn_seq := Suc (length (turns s))\<rparr>)"
    using assms(1) next_seq_run [OF assms(2)] by (simp add: append_turn_def Let_def)
  moreover have t: "turns ?s' = turns s @ [t\<lparr>turn_seq := Suc (length (turns s))\<rparr>]"
    by simp
  moreover have "seq_run ?s'"
    using seq_run_snoc [OF assms(2) t] .
  ultimately show ?thesis by blast
qed

lemma run_call_seq_run:
  assumes "\<And>sid s. st sid = Some s \<Longrightarrow> seq_run s"
    and "run_call st c sid = Some s"
  shows "seq_run s"
proof (cases c)
  case (GetOrCreate k)
  have "seq_run \<lparr>session_id = k, turns = [], last_active_domain = None\<rparr>"
    by (simp add: seq_run_def)
  with assms GetOrCreate show ?thesis
    by (auto simp: get_or_create_def Let_def split: option.splits if_splits)
next
  case (AppendTurn k t)
  show ?thesis
  proof (cases "st k")
    case None
    with assms AppendTurn show ?thesis by (simp add: append_turn_def)
  next
    case (Some s0)
    then have "seq_run s0" using assms(1) by blast
    from append_turn_seq_run [of st k s0 t, OF Some this] obtain s' where
      "append_turn st k t = Inr (st(k \<mapsto> s'), t\<lparr>turn_seq := Suc (length (turns s0))\<rparr>)" "seq_run s'"
      by blast
    with assms AppendTurn show ?thesis
      by (cases "sid = k") auto
  qed
qed

lemma run_calls_seq_run:
  assumes "\<And>sid s. st sid = Some s \<Longrightarrow> seq_run s"
    and "run_calls st cs sid = Some s"
  shows "seq_run s"
  using assms
proof (induction cs arbitrary: st sid s)
  case Nil
  then show ?case by (simp add: run_calls_def)
next
  case (Cons c cs)
  have "\<And>sid s. run_call st c sid = Some s \<Longrightarrow> seq_run s"
    using run_call_seq_run Cons.prems(1) by blast
  moreover have "run_calls (run_call st c) cs sid = Some s"
    using Cons.prems(2) by (simp add: run_calls_def)
  ultimately show ?case using Cons.IH by blast
qed

lemma number_from_seqs: "map turn_seq (number_from k ts) = [k ..< k + length ts]"
proof (induction ts arbitrary: k)
  case Nil
  show ?case by simp
next
  case (Cons t ts)
  then show ?case by (simp add: upt_conv_Cons del: upt_Suc)
qed

lemma number_from_keeps:
  "map (\<lambda>t. t\<lparr>turn_seq := 0\<rparr>) (number_from k ts) = map (\<lambda>t. t\<lparr>turn_seq := 0\<rparr>) ts"
  by (induction ts arbitrary: k) simp_all

lemma next_seq_snoc: "next_seq (s\<lparr>turns := turns s @ [t\<lparr>turn_seq := k\<rparr>], last_active_domain := d\<rparr>) = Suc k"
  by (cases "turns s") (simp_all add: next_seq_def)

lemma append_turns_result:
  "st sid = Some s \<Longrightarrow>
   \<exists>st' s'. append_turns st sid ts = Inr (st', number_from (next_seq s) ts) \<and>
           st' sid = Some s' \<and> turns s' = turns s @ number_from (next_seq s) ts"
proof (induction ts arbitrary: st s)
  case Nil
  then show ?case by simp
next
  case (Cons t ts)
  let ?s1 = "s\<lparr>turns := turns s @ [t\<lparr>turn_seq := next_seq s\<rparr>],
               last_active_domain :=
                 (case turn_domain t of None \<Rightarrow> last_active_domain s | Some d \<Rightarrow> Some d)\<rparr>"
  let ?st1 = "st(sid \<mapsto> ?s1)"
  have step: "append_turn st sid t = Inr (?st1, t\<lparr>turn_seq := next_seq s\<rparr>)"
    using Cons.prems by (simp add: append_turn_def Let_def)
  have n1: "next_seq ?s1 = Suc (next_seq s)"
    by (rule next_seq_snoc)
  have "?st1 sid = Some ?s1" by simp
  from Cons.IH [of ?st1 ?s1, OF this] obtain st' s' where
    rest: "append_turns ?st1 sid ts = Inr (st', number_from (next_seq ?s1) ts)"
      "st' sid = Some s'" "turns s' = turns ?s1 @ number_from (next_seq ?s1) ts"
    by blast
  have "append_turns st sid (t # ts) = Inr (st', number_from (next_seq s) (t # ts))"
    using step rest(1) n1 by simp
  moreover have "turns s' = turns s @ number_from (next_seq s) (t # ts)"
    using rest(3) n1 by simp
  ultimately show ?case using rest(2) by blast
qed

text \<open>
  Claim C4. Start from the empty store and let any list of calls run, \<open>get_or_create\<close>
  and \<open>append_turn\<close> calls of any callers on any sessions, in any interleaving, failed calls
  included. Then in every session the sequence numbers of the stored turns are
  1, 2, ..., n in this order: strictly increasing from 1, without gap or duplicate.
\<close>

theorem sequence_numbers_run:
  assumes "run_calls Map.empty cs sid = Some s"
  shows "map turn_seq (turns s) = [1 ..< Suc (length (turns s))] \<and>
         sorted_wrt (<) (map turn_seq (turns s)) \<and> distinct (map turn_seq (turns s))"
proof -
  have "seq_run s"
    using run_calls_seq_run [of Map.empty cs sid s] assms by simp
  then have eq: "map turn_seq (turns s) = [1 ..< Suc (length (turns s))]"
    by (simp add: seq_run_def)
  have "sorted_wrt (<) [1 ..< Suc (length (turns s))]" "distinct [1 ..< Suc (length (turns s))]"
    by (rule sorted_wrt_upt, rule distinct_upt)
  with eq show ?thesis by metis
qed

lemma example_calls_s1:
  "run_calls Map.empty example_calls ''s1'' =
     Some \<lparr>session_id = ''s1'',
           turns = [example_turn user ''What is Medicare Part A?'' None 10 \<lparr>turn_seq := 1\<rparr>,
                    example_turn assistant ''Part A is hospital insurance.'' (Some Medicare) 12 \<lparr>turn_seq := 2\<rparr>,
                    example_turn user ''What about Part B?'' None 14 \<lparr>turn_seq := 3\<rparr>],
           last_active_domain = Some Medicare\<rparr>"
  by (simp add: run_calls_def example_calls_def get_or_create_def append_turn_def next_seq_def
        example_turn_def Let_def)

theorem sequence_numbers_run_witness:
  "run_calls Map.empty example_calls ''s1'' =
     Some \<lparr>session_id = ''s1'',
           turns = [example_turn user ''What is Medicare Part A?'' None 10 \<lparr>turn_seq := 1\<rparr>,
                    example_turn assistant ''Part A is hospital insurance.'' (Some Medicare) 12 \<lparr>turn_seq := 2\<rparr>,
                    example_turn user ''What about Part B?'' None 14 \<lparr>turn_seq := 3\<rparr>],
           last_active_domain = Some Medicare\<rparr> \<and>
   map turn_seq
     [example_turn user ''What is Medicare Part A?'' None 10 \<lparr>turn_seq := 1\<rparr>,
      example_turn assistant ''Part A is hospital insurance.'' (Some Medicare) 12 \<lparr>turn_seq := 2\<rparr>,
      example_turn user ''What about Part B?'' None 14 \<lparr>turn_seq := 3\<rparr>] = [1, 2, 3]"
proof -
  have "[1 ..< Suc (length [a, b, c])] = [1, 2, 3]" for a b c :: Turn
    by (simp add: upt_rec)
  with sequence_numbers_run [OF example_calls_s1] example_calls_s1 show ?thesis
    by simp
qed

subsection \<open>History\<close>

text \<open>
  Claim C5. Appending the turns \<open>ts\<close> to an existing session succeeds and stores them
  numbered on from the session's next sequence number; \<open>history\<close> without a limit then
  returns the turns the session had followed by exactly these, in the order appended.
  For a session without earlier turns that is exactly the appended turns, numbered from
  1. They are as many as were given and, sequence numbers aside, the turns given.
\<close>

theorem history_round_trip:
  assumes "st sid = Some s"
  shows "\<exists>st'. append_turns st sid ts = Inr (st', number_from (next_seq s) ts) \<and>
               history st' sid None = Inr (turns s @ number_from (next_seq s) ts) \<and>
               (turns s = [] \<longrightarrow> history st' sid None = Inr (number_from 1 ts)) \<and>
               length (number_from (next_seq s) ts) = length ts \<and>
               map (\<lambda>t. t\<lparr>turn_seq := 0\<rparr>) (number_from (next_seq s) ts) =
                 map (\<lambda>t. t\<lparr>turn_seq := 0\<rparr>) ts"
proof -
  from append_turns_result [of st sid s ts, OF assms] obtain st' s' where
    r: "append_turns st sid ts = Inr (st', number_from (next_seq s) ts)"
       "st' sid = Some s'" "turns s' = turns s @ number_from (next_seq s) ts"
    by blast
  have h: "history st' sid None = Inr (turns s @ number_from (next_seq s) ts)"
    using r(2,3) by (simp add: history_def)
  have "turns s = [] \<longrightarrow> history st' sid None = Inr (number_from 1 ts)"
    using h by (simp add: next_seq_def)
  moreover have "length (number_from (next_seq s) ts) = length ts"
    using number_from_seqs [of "next_seq s" ts] by (metis length_map length_upt add_diff_cancel_left')
  ultimately show ?thesis
    using r(1) h number_from_keeps by blast
qed


theorem history_round_trip_witness:
  "fst (get_or_create Map.empty ''s1'') ''s1'' =
     Some \<lparr>session_id = ''s1'', turns = [], last_active_domain = None\<rparr> \<and>
   (\<exists>st'. append_turns (fst (get_or_create Map.empty ''s1'')) ''s1''
            [example_turn user ''What is Medicare Part A?'' None 10,
             example_turn assistant ''Part A is hospital insurance.'' (Some Medicare) 12] =
          Inr (st', [example_turn user ''What is Medicare Part A?'' None 10 \<lparr>turn_seq := 1\<rparr>,
                     example_turn assistant ''Part A is hospital insurance.'' (Some Medicare) 12 \<lparr>turn_seq := 2\<rparr>]) \<and>
          history st' ''s1'' None =
            Inr [example_turn user ''What is Medicare Part A?'' None 10 \<lparr>turn_seq := 1\<rparr>,
                 example_turn assistant ''Part A is hospital insurance.'' (Some Medicare) 12 \<lparr>turn_seq := 2\<rparr>])"
proof -
  have h: "fst (get_or_create Map.empty ''s1'') ''s1'' =
     Some \<lparr>session_id = ''s1'', turns = [], last_active_domain = None\<rparr>"
    by (simp add: get_or_create_def Let_def)
  have n: "next_seq \<lparr>session_id = ''s1'', turns = [], last_active_domain = None\<rparr> = 1"
    by (simp add: next_seq_def)
  have m: "number_from 1 [a, b] = [a\<lparr>turn_seq := 1\<rparr>, b\<lparr>turn_seq := 2\<rparr>]" for a b
    by (simp add: numeral_2_eq_2)
  from history_round_trip [of "fst (get_or_create Map.empty ''s1'')" "''s1''"
      "\<lparr>session_id = ''s1'', turns = [], last_active_domain = None\<rparr>"
      "[example_turn user ''What is Medicare Part A?'' None 10,
        example_turn assistant ''Part A is hospital insurance.'' (Some Medicare) 12]", OF h]
  obtain st' where
    "append_turns (fst (get_or_create Map.empty ''s1'')) ''s1''
            [example_turn user ''What is Medicare Part A?'' None 10,
             example_turn assistant ''Part A is hospital insurance.'' (Some Medicare) 12] =
       Inr (st', number_from 1
            [example_turn user ''What is Medicare Part A?'' None 10,
             example_turn assistant ''Part A is hospital insurance.'' (Some Medicare) 12])"
    "history st' ''s1'' None = Inr (number_from 1
            [example_turn user ''What is Medicare Part A?'' None 10,
             example_turn assistant ''Part A is hospital insurance.'' (Some Medicare) 12])"
    unfolding n by auto
  then show ?thesis
    unfolding m using h by blast
qed

subsection \<open>Routing\<close>

lemma strongest3:
  "strongest g Medicare [Medicaid, LocalResources] =
     (if g Medicare < g Medicaid
      then (if g Medicaid < g LocalResources then LocalResources else Medicaid)
      else (if g Medicare < g LocalResources then LocalResources else Medicare))"
  by simp

text \<open>
  Claim C6. Where domains tie for the strongest signal, the precedence decides. When
  Medicare and Medicaid have exactly equal signal strength the decision is never Medicaid,
  and it is Medicare whenever the two tie for the strongest signal (Local-Resources is not
  stronger) and that strength reaches the threshold. In general a decision other than
  Fallback is a strongest domain that reaches the threshold, and among the domains of
  exactly that strength the one first in the precedence Medicare, Medicaid,
  Local-Resources; the decision is Fallback exactly when no domain reaches the threshold.
\<close>

theorem route_tie_break:
  "(signal s txt Medicare = signal s txt Medicaid \<longrightarrow>
      decision_domain (route thr signal s txt) \<noteq> Medicaid) \<and>
   (signal s txt Medicare = signal s txt Medicaid \<and>
    signal s txt LocalResources \<le> signal s txt Medicare \<and>
    thr \<le> signal s txt Medicare \<longrightarrow>
      decision_domain (route thr signal s txt) = Medicare) \<and>
   (decision_domain (route thr signal s txt) \<noteq> Fallback \<longrightarrow>
      thr \<le> signal s txt (decision_domain (route thr signal s txt)) \<and>
      (\<forall>d \<in> {Medicare, Medicaid, LocalResources}.
         signal s txt d \<le> signal s txt (decision_domain (route thr signal s txt)) \<and>
         (signal s txt d = signal s txt (decision_domain (route thr signal s txt)) \<longrightarrow>
            rank (decision_domain (route thr signal s txt)) \<le> rank d))) \<and>
   (decision_domain (route thr signal s txt) = Fallback \<longleftrightarrow>
      (\<forall>d \<in> {Medicare, Medicaid, LocalResources}. signal s txt d < thr))"
  unfolding route_def Let_def strongest3
  by auto

theorem route_tie_break_witness:
  "example_signal \<lparr>session_id = ''s1'', turns = [], last_active_domain = None\<rparr> ''coverage'' Medicare =
     example_signal \<lparr>session_id = ''s1'', turns = [], last_active_domain = None\<rparr> ''coverage'' Medicaid \<and>
   example_signal \<lparr>session_id = ''s1'', turns = [], last_active_domain = None\<rparr> ''coverage'' LocalResources
     \<le> example_signal \<lparr>session_id = ''s1'', turns = [], last_active_domain = None\<rparr> ''coverage'' Medicare \<and>
   1 / 2 \<le> example_signal \<lparr>session_id = ''s1'', turns = [], last_active_domain = None\<rparr> ''coverage'' Medicare \<and>
   decision_domain (route (1 / 2) example_signal
       \<lparr>session_id = ''s1'', turns = [], last_active_domain = None\<rparr> ''coverage'') = Medicare \<and>
   decision_domain (route (1 / 2) example_signal
       \<lparr>session_id = ''s1'', turns = [], last_active_domain = None\<rparr> ''coverage'') \<noteq> Fallback \<and>
   Medicaid \<in> {Medicare, Medicaid, LocalResources} \<and>
   rank Medicare \<le> rank Medicaid"
proof -
  let ?s = "\<lparr>session_id = ''s1'', turns = [], last_active_domain = None\<rparr>"
  have h: "example_signal ?s ''coverage'' Medicare = example_signal ?s ''coverage'' Medicaid"
          "example_signal ?s ''coverage'' LocalResources \<le> example_signal ?s ''coverage'' Medicare"
          "1 / 2 \<le> example_signal ?s ''coverage'' Medicare"
    by (simp_all add: example_signal_def)
  from route_tie_break [of example_signal ?s "''coverage''" "1 / 2"] h
  have "decision_domain (route (1 / 2) example_signal ?s ''coverage'') = Medicare"
    by blast
  with h show ?thesis by simp
qed

subsection \<open>Provider failure\<close>

lemma consult_failure:
  "(name, q) \<in> set plan \<Longrightarrow> providers name q = Inl e \<Longrightarrow> \<exists>e'. consult providers plan = Inl e'"
proof (induction plan)
  case Nil
  then show ?case by simp
next
  case (Cons p plan)
  obtain n' q' where p: "p = (n', q')" by (cases p)
  show ?case
  proof (cases "providers n' q'")
    case (Inl e0)
    with p show ?thesis by simp
  next
    case (Inr found)
    with Cons p have "(name, q) \<in> set plan" by auto
    with Cons obtain e' where "consult providers plan = Inl e'" by blast
    with p Inr show ?thesis by simp
  qed
qed

text \<open>
  Claim C8. If any of the providers a turn consults raises an error, \<open>respond\<close> still
  returns a response: the general, provider-free answer, with no provider listed and
  \<open>needs_disclaimer\<close> true. The error is not part of what the caller gets.
\<close>

theorem provider_failure_degrades:
  assumes "(name, q) \<in> set (lookups_needed sp session incoming_text)"
    and "provider sp name q = Inl e"
  shows "respond sp session incoming_text =
           \<lparr>reply_text = general_answer sp session incoming_text,
            providers_consulted = [], needs_disclaimer = True\<rparr>"
proof -
  from consult_failure [of name q _ "provider sp", OF assms] obtain e' where
    "consult (provider sp) (lookups_needed sp session incoming_text) = Inl e'" by blast
  then show ?thesis by (simp add: respond_def)
qed

theorem provider_failure_degrades_witness:
  "(''eligibility'', ''Am I eligible?'') \<in>
     set (lookups_needed example_specialist
            \<lparr>session_id = ''s1'', turns = [], last_active_domain = None\<rparr> ''Am I eligible?'') \<and>
   provider example_specialist ''eligibility'' ''Am I eligible?'' = Inl ProviderUnavailable \<and>
   respond example_specialist \<lparr>session_id = ''s1'', turns = [], last_active_domain = None\<rparr>
       ''Am I eligible?'' =
     \<lparr>reply_text = ''Medicaid is a joint federal and state program.'',
      providers_consulted = [], needs_disclaimer = True\<rparr>"
proof -
  let ?s = "\<lparr>session_id = ''s1'', turns = [], last_active_domain = None\<rparr>"
  have h1: "(''eligibility'', ''Am I eligible?'') \<in> set (lookups_needed example_specialist ?s ''Am I eligible?'')"
    by (simp add: example_specialist_def)
  have h2: "provider example_specialist ''eligibility'' ''Am I eligible?'' = Inl ProviderUnavailable"
    by (simp add: example_specialist_def)
  from provider_failure_degrades [OF h1 h2]
  have "respond example_specialist ?s ''Am I eligible?'' =
     \<lparr>reply_text = ''Medicaid is a joint federal and state program.'',
      providers_consulted = [], needs_disclaimer = True\<rparr>"
    by (simp add: example_specialist_def)
  with h1 h2 show ?thesis by blast
qed

end
